theory Spec2Isabelle
  imports Complex_Main "HOL-Library.AList"
begin

section \<open>Python values used by the services\<close>

text \<open>
  Exceptions are values. Only the exception classes that the handlers of the services tell
  apart are kept as separate constructors; \<open>str_of\<close> is Python's \<open>str(e)\<close>.
  A \<open>string\<close> is a list of characters, one \<open>char\<close> for each code point of the Python
  string; the code points above 127 are the non-ASCII ones.
\<close>

datatype error =
    ValueError string
  | OSError string
  | UnicodeEncodeError string
  | IDNAError string
  | ClientError string


definition py_isspace :: "char \<Rightarrow> bool" where
  \<comment> \<open>\<open>str.isspace\<close> on the code points below 256\<close>
  "py_isspace c = (of_char c \<in> {9, 10, 11, 12, 13, 28, 29, 30, 31, 32, 133, 160 :: nat})"

definition strip :: "string \<Rightarrow> string" where
  "strip s = rev (dropWhile py_isspace (rev (dropWhile py_isspace s)))"

definition startswith :: "string \<Rightarrow> string \<Rightarrow> bool" where
  "startswith s p = (take (length p) s = p)"

fun py_in :: "string \<Rightarrow> string \<Rightarrow> bool" where
  \<comment> \<open>\<open>p in s\<close> on strings: \<open>p\<close> occurs in \<open>s\<close> as a substring\<close>
  "py_in p [] = (p = [])"
| "py_in p (c # cs) = (startswith (c # cs) p \<or> py_in p cs)"

definition py_lower_char :: "char \<Rightarrow> char" where
  \<comment> \<open>\<open>str.lower\<close> on the code points below 256\<close>
  "py_lower_char c =
     (let n = (of_char c :: nat)
      in if (65 \<le> n \<and> n \<le> 90) \<or> (192 \<le> n \<and> n \<le> 222 \<and> n \<noteq> 215)
         then char_of (n + 32) else c)"

definition lower :: "string \<Rightarrow> string" where
  "lower s = map py_lower_char s"

definition count_char :: "string \<Rightarrow> char \<Rightarrow> nat" where
  \<comment> \<open>\<open>s.count(c)\<close> for a one-character \<open>c\<close>\<close>
  "count_char s c = length (filter (\<lambda>x. x = c) s)"

definition encode_ascii :: "string \<Rightarrow> error + string" where
  \<comment> \<open>\<open>s.encode('ascii')\<close>: raises on any code point above 127\<close>
  "encode_ascii s =
     (if \<forall>c \<in> set s. (of_char c :: nat) < 128 then Inr s
      else Inl (UnicodeEncodeError ''ascii codec cannot encode character''))"


section \<open>Step 1: URL normalization\<close>

text \<open>
  \<open>urllib.parse.urlparse\<close>, \<open>tldextract.extract\<close>, \<open>socket.inet_aton\<close> and
  \<open>idna.decode\<close> are library calls: the model takes each as a parameter that either
  returns or raises.
\<close>

record parsed_url =
  scheme :: string
  netloc :: string
  path :: string
  query :: string

record extract_result =
  ex_subdomain :: string
  ex_domain :: string
  ex_suffix :: string
  registered_domain :: string

record norm_features =
  original_url :: string
  domain :: string
  subdomain :: string
  suffix :: string
  is_ip :: bool
  has_punycode :: bool
  url_length :: nat
  path_length :: nat
  query_length :: nat

definition is_ip_address :: "(string \<Rightarrow> error + unit) \<Rightarrow> string \<Rightarrow> error + bool" where
  \<comment> \<open>\<open>except socket.error\<close> catches \<open>OSError\<close> only; anything else propagates\<close>
  "is_ip_address inet_aton hostname =
     (case inet_aton hostname of
        Inr _ \<Rightarrow> Inr True
      | Inl (OSError _) \<Rightarrow> Inr False
      | Inl e \<Rightarrow> Inl e)"

definition has_punycode_of :: "(string \<Rightarrow> error + string) \<Rightarrow> string \<Rightarrow> bool" where
  \<comment> \<open>\<open>_has_punycode\<close>; the bare \<open>except\<close> catches everything\<close>
  "has_punycode_of idna_decode hostname =
     (case encode_ascii hostname of
        Inl _ \<Rightarrow> False
      | Inr bytes \<Rightarrow>
          (case idna_decode bytes of
             Inl _ \<Rightarrow> False
           | Inr decoded \<Rightarrow> decoded \<noteq> hostname))"

definition with_scheme :: "string \<Rightarrow> string" where
  \<comment> \<open>the first two statements of \<open>_normalize_and_check_url\<close>\<close>
  "with_scheme url0 =
     (let url = strip url0
      in if \<not> (startswith url ''http://'' \<or> startswith url ''https://'')
         then ''https://'' @ url else url)"

definition normalize_and_check_url ::
  "(string \<Rightarrow> error + parsed_url) \<Rightarrow> (string \<Rightarrow> error + extract_result) \<Rightarrow>
   (string \<Rightarrow> error + unit) \<Rightarrow> (string \<Rightarrow> error + string) \<Rightarrow>
   string \<Rightarrow> error + (string \<times> norm_features)" where
  "normalize_and_check_url urlparse extract inet_aton idna_decode url0 =
     (let url = with_scheme url0
      in case urlparse url of
           Inl e \<Rightarrow> Inl e
         | Inr parsed \<Rightarrow>
             (case extract (netloc parsed) of
                Inl e \<Rightarrow> Inl e
              | Inr extracted \<Rightarrow>
                  (case is_ip_address inet_aton (netloc parsed) of
                     Inl e \<Rightarrow> Inl e
                   | Inr ip \<Rightarrow>
                       Inr (url,
                            \<lparr> original_url = url,
                              domain = ex_domain extracted,
                              subdomain = ex_subdomain extracted,
                              suffix = ex_suffix extracted,
                              is_ip = ip,
                              has_punycode = has_punycode_of idna_decode (netloc parsed),
                              url_length = length url,
                              path_length = length (path parsed),
                              query_length = length (query parsed) \<rparr>))))"

section \<open>Step 2: DNS and WHOIS lookup\<close>


record dns_result =
  a_records :: "string list option"
  dns_error :: "string option"
  creation_date :: "string option option"
  registrar :: "string option option"
  name_servers :: "string list option"
  whois_error :: "string option"
  domain_age_days :: "int option"  \<comment> \<open>read by the feature extractor, set by no stage\<close>




section \<open>Step 4: HTTP fetch and redirect chain\<close>

record response =
  resp_url :: string
  status :: int
  resp_headers :: "(string \<times> string) list"
  resp_text :: "error + string"  \<comment> \<open>what \<open>await response.text()\<close> gives\<close>



definition headers_get :: "(string \<times> string) list \<Rightarrow> string \<Rightarrow> string option" where
  \<comment> \<open>header names compare without case\<close>
  "headers_get hs name = map_of (map (\<lambda>(k, v). (lower k, v)) hs) (lower name)"


record hop =
  hop_url :: string
  hop_status :: int
  hop_location :: string

record http_result =
  redirect_chain :: "hop list"
  final_url :: string
  status_code :: "int option"
  headers :: "(string \<times> string) list"
  html_content :: string
  http_error :: "string option"

definition redirect_status :: "int \<Rightarrow> bool" where
  "redirect_status s = (s \<in> {301, 302, 303, 307, 308})"





subsection \<open>Redirect chains\<close>

text \<open>
  What a chain of redirect responses should leave in the result: a response redirects when
  it has a redirect status and a non-empty \<open>Location\<close>; a run of such responses
  resolves from a URL when \<open>urljoin\<close> returns at each of them; \<open>hops_of\<close> are the
  entries recorded for the run and \<open>final_of\<close> is the URL reached after it.
\<close>

definition location_of :: "response \<Rightarrow> string" where
  "location_of r = (case headers_get (resp_headers r) ''Location'' of None \<Rightarrow> [] | Some l \<Rightarrow> l)"

definition redirects :: "response \<Rightarrow> bool" where
  \<comment> \<open>a redirect status with a Location header\<close>
  "redirects r = (redirect_status (status r) \<and> location_of r \<noteq> [])"





section \<open>Step 7: content analysis\<close>



record input_data =
  input_type :: string
  input_name :: string

record form_data =
  form_action :: string
  form_method :: string
  inputs :: "input_data list"

record content_result =
  content_error :: "string option"
  content_analysis_error :: "string option"
  title :: "string option option"
  forms :: "form_data list option"
  external_links :: "string list option"
  suspicious_elements :: "string list option"
  has_login_form :: "bool option"
  content_meta_description :: "string option"  \<comment> \<open>read by the classifier, set by no stage\<close>

definition empty_content :: content_result where
  "empty_content = \<lparr> content_error = None, content_analysis_error = None, title = None,
                     forms = None, external_links = None, suspicious_elements = None,
                     has_login_form = None, content_meta_description = None \<rparr>"






section \<open>Errors and payloads of a stage result\<close>








section \<open>The analysis record\<close>

text \<open>
  The results of the token stage and of the dynamic stage, with the keys that the classifier
  and the risk compiler read, and the record that the pipeline hands to them. A stage that
  is missing from \<open>steps\<close> is \<open>None\<close>: the readers then take the empty dict.
\<close>

record token_result =
  suspicious_keywords :: "string list"
  long_hex_tokens :: "string list"
  base64_patterns :: "string list"
  subdomain_count :: nat
  has_homoglyphs :: bool

record screenshot_result =
  page_title :: "string option"
  meta_description :: "string option"
  viewport_content :: "string option"
  phishing_indicators :: "string list option"
  analysis_success :: "bool option"
  screenshot_error :: "string option"

record steps =
  st_normalization :: "norm_features option"
  st_dns_whois :: "dns_result option"
  st_http_analysis :: "http_result option"
  st_token_analysis :: "token_result option"
  st_content_analysis :: "content_result option"
  st_screenshot_analysis :: "screenshot_result option"

record analysis_result =
  ar_job_id :: string
  ar_url :: string
  ar_steps :: steps


section \<open>Python floats\<close>

text \<open>
  A Python float is an IEEE 754 binary64 number. The model keeps its value, a real number,
  and every float operation is the exact operation followed by the rounding \<open>rnd\<close> to the
  nearest binary64 value, ties to the even mantissa: 53 bits of mantissa, and the fixed
  spacing \<open>2 ^ -1074\<close> below \<open>2 ^ -1022\<close>. A decimal literal of the source, such as
  \<open>0.7\<close>, is the rounding of that decimal, \<open>rnd 0.7\<close>; an integer operand is converted
  by the same rounding. Infinities and NaN are not modelled: the scores and sums of the
  services stay far below \<open>2 ^ 1024\<close>.
\<close>

type_synonym double = real

definition round_half_even :: "real \<Rightarrow> int" where
  "round_half_even x =
     (let f = \<lfloor>x\<rfloor>; d = x - of_int f
      in if d < 1 / 2 then f
         else if d > 1 / 2 then f + 1
         else if even f then f else f + 1)"

fun bit_length :: "nat \<Rightarrow> nat" where
  \<comment> \<open>the number of binary digits of \<open>n\<close>\<close>
  "bit_length n = (if n = 0 then 0 else 1 + bit_length (n div 2))"

declare bit_length.simps [simp del]

definition pow2 :: "int \<Rightarrow> real" where
  "pow2 k = (if k \<ge> 0 then 2 ^ nat k else 1 / 2 ^ nat (- k))"

definition floor_log2 :: "real \<Rightarrow> int" where
  \<comment> \<open>for \<open>y > 0\<close>, the \<open>k\<close> with \<open>2 ^ k \<le> y < 2 ^ (k + 1)\<close>\<close>
  "floor_log2 y =
     (if y \<ge> 1 then int (bit_length (nat \<lfloor>y\<rfloor>)) - 1
      else
        (let b = int (bit_length (nat \<lfloor>1 / y\<rfloor>))
         in if y * pow2 (b - 1) = 1 then - (b - 1) else - b))"

definition rnd :: "real \<Rightarrow> double" where
  "rnd x =
     (if x = 0 then 0
      else
        (let e = max (floor_log2 \<bar>x\<bar> - 52) (- 1074)
         in of_int (round_half_even (x / pow2 e)) * pow2 e))"

definition fadd :: "double \<Rightarrow> double \<Rightarrow> double" where
  "fadd a b = rnd (a + b)"

definition fsub :: "double \<Rightarrow> double \<Rightarrow> double" where
  "fsub a b = rnd (a - b)"

definition fmul :: "double \<Rightarrow> double \<Rightarrow> double" where
  "fmul a b = rnd (a * b)"

definition fdiv :: "double \<Rightarrow> double \<Rightarrow> double" where
  \<comment> \<open>the services divide by the literal \<open>2.0\<close> only, never by zero\<close>
  "fdiv a b = rnd (a / b)"


section \<open>The classifier\<close>

subsection \<open>Feature extraction\<close>

definition ascii_digit :: "char \<Rightarrow> bool" where
  "ascii_digit c = (48 \<le> (of_char c :: nat) \<and> (of_char c :: nat) \<le> 57)"

definition py_isdigit :: "string \<Rightarrow> bool" where
  \<comment> \<open>\<open>str.isdigit\<close> on the code points below 256: the superscripts 1, 2, 3 count\<close>
  "py_isdigit s =
     (s \<noteq> [] \<and> (\<forall>c \<in> set s. ascii_digit c \<or> (of_char c :: nat) \<in> {178, 179, 185}))"

fun split_on :: "char \<Rightarrow> string \<Rightarrow> string list" where
  \<comment> \<open>\<open>s.split(c)\<close>\<close>
  "split_on c [] = [[]]"
| "split_on c (x # xs) =
     (if x = c then [] # split_on c xs
      else (case split_on c xs of [] \<Rightarrow> [[x]] | w # ws \<Rightarrow> (x # w) # ws))"

definition octet_dot :: "string \<Rightarrow> string option" where
  \<comment> \<open>\<open>[0-9]{1,3}\.\<close> at the head of the string; the rest after the dot\<close>
  "octet_dot s =
     (let ds = takeWhile ascii_digit s
      in if 1 \<le> length ds \<and> length ds \<le> 3 then
           (case dropWhile ascii_digit s of
              [] \<Rightarrow> None
            | c # rest \<Rightarrow> if c = CHR ''.'' then Some rest else None)
         else None)"

definition ip_pattern_at :: "string \<Rightarrow> bool" where
  "ip_pattern_at s =
     (case octet_dot s of None \<Rightarrow> False | Some s1 \<Rightarrow>
     (case octet_dot s1 of None \<Rightarrow> False | Some s2 \<Rightarrow>
     (case octet_dot s2 of None \<Rightarrow> False | Some s3 \<Rightarrow>
     (case s3 of [] \<Rightarrow> False | c # _ \<Rightarrow> ascii_digit c))))"

fun ip_pattern_search :: "string \<Rightarrow> bool" where
  \<comment> \<open>\<open>re.search\<close> of four dotted groups of one to three digits\<close>
  "ip_pattern_search [] = False"
| "ip_pattern_search (c # cs) = (ip_pattern_at (c # cs) \<or> ip_pattern_search cs)"

definition redirect_count_of :: "steps \<Rightarrow> nat" where
  \<comment> \<open>\<open>len(steps.get("http_analysis", {}).get("redirect_chain", []))\<close>\<close>
  "redirect_count_of st =
     (case st_http_analysis st of None \<Rightarrow> 0 | Some h \<Rightarrow> length (redirect_chain h))"

definition login_form_of :: "steps \<Rightarrow> bool" where
  \<comment> \<open>the truth value of \<open>steps.get("content_analysis", {}).get("has_login_form")\<close>\<close>
  "login_form_of st =
     (case st_content_analysis st of
        None \<Rightarrow> False
      | Some c \<Rightarrow> (case has_login_form c of None \<Rightarrow> False | Some b \<Rightarrow> b))"

definition domain_age_of :: "steps \<Rightarrow> int" where
  "domain_age_of st =
     (case st_dns_whois st of
        None \<Rightarrow> 365
      | Some d \<Rightarrow> (case domain_age_days d of
                     None \<Rightarrow> 365
                   | Some a \<Rightarrow> if a \<noteq> 0 then a else 365))"

definition extract_url_features ::
  "(string \<Rightarrow> error + parsed_url) \<Rightarrow> string \<Rightarrow> analysis_result \<Rightarrow> int list" where
  "extract_url_features urlparse u analysis_data =
     (case urlparse u of
        Inl e \<Rightarrow> replicate 15 0
      | Inr parsed \<Rightarrow>
          [ int (length u),
            int (length (netloc parsed)),
            int (length (path parsed)),
            int (length (query parsed)),
            int (count_char u (CHR ''.'')),
            int (count_char u (CHR ''-'')),
            int (count_char u (CHR ''_'')),
            int (count_char u (CHR ''/'')),
            of_bool (py_isdigit (filter (\<lambda>c. c \<noteq> CHR ''.'') (netloc parsed))),
            of_bool (length (split_on (CHR ''.'') (netloc parsed)) > 4),
            of_bool (py_in ''bit.ly'' u \<or> py_in ''tinyurl'' u \<or> py_in ''short'' u),
            of_bool (ip_pattern_search u),
            domain_age_of (ar_steps analysis_data),
            int (redirect_count_of (ar_steps analysis_data)),
            of_bool (login_form_of (ar_steps analysis_data)) ])"

subsection \<open>Text extraction and text score\<close>

definition text_part :: "string option \<Rightarrow> string" where
  \<comment> \<open>\<open>if d.get(k): text_content += d[k] + " "\<close>\<close>
  "text_part v = (case v of None \<Rightarrow> [] | Some t \<Rightarrow> if t = [] then [] else t @ '' '')"

definition extract_text_features :: "analysis_result \<Rightarrow> string" where
  "extract_text_features analysis_data =
     (let st = ar_steps analysis_data;
          shot = (case st_screenshot_analysis st of
                    None \<Rightarrow> []
                  | Some sd \<Rightarrow>
                      text_part (page_title sd) @ text_part (meta_description sd) @
                      text_part (map_option (take 500) (viewport_content sd)));
          static = (case st_content_analysis st of
                      None \<Rightarrow> []
                    | Some cd \<Rightarrow>
                        text_part (case title cd of None \<Rightarrow> None | Some t \<Rightarrow> t) @
                        text_part (content_meta_description cd));
          text_content = strip (shot @ static)
      in if text_content = [] then ''no content'' else text_content)"

definition phishing_keywords :: "(string \<times> double) list" where
  "phishing_keywords =
     [ (''verify'', rnd 0.3), (''suspended'', rnd 0.4), (''urgent'', rnd 0.3),
       (''account'', rnd 0.2), (''login'', rnd 0.25), (''update'', rnd 0.2),
       (''confirm'', rnd 0.25), (''secure'', rnd 0.2), (''immediately'', rnd 0.3),
       (''expire'', rnd 0.3), (''click here'', rnd 0.4), (''limited time'', rnd 0.3),
       (''act now'', rnd 0.35), (''paypal'', rnd 0.3), (''amazon'', rnd 0.3),
       (''apple'', rnd 0.3), (''microsoft'', rnd 0.3), (''google'', rnd 0.3),
       (''bank'', rnd 0.4), (''credit card'', rnd 0.4), (''ssn'', rnd 0.5),
       (''social security'', rnd 0.5) ]"

definition analyze_text_content :: "string \<Rightarrow> double" where
  "analyze_text_content text =
     (if text = [] then 0
      else
        (let text_lower = lower text;
             score = fold (\<lambda>(keyword, weight) acc.
                             if py_in keyword text_lower then fadd acc weight else acc)
                          phishing_keywords 0
         in min 1 (fdiv score 2)))"

subsection \<open>Classification\<close>

record classification_result =
  classification :: string
  phishing_score :: double
  ml_confidence :: double
  url_score :: double
  text_score :: double
  features_used :: "int list"

definition fallback_classification :: "string \<Rightarrow> analysis_result \<Rightarrow> classification_result" where
  "fallback_classification u analysis_data =
     (let r0 = 0;
          r1 = (if length u > 100 then fadd r0 (rnd 0.2) else r0);
          r2 = (if py_in ''bit.ly'' u \<or> py_in ''tinyurl'' u then fadd r1 (rnd 0.3) else r1);
          r3 = (if ip_pattern_search u then fadd r2 (rnd 0.4) else r2);
          r4 = (if redirect_count_of (ar_steps analysis_data) > 2
                then fadd r3 (rnd 0.3) else r3);
          r5 = (if login_form_of (ar_steps analysis_data) then fadd r4 (rnd 0.2) else r4);
          (cls, conf) = (if r5 \<ge> rnd 0.6 then (''phishing'', 75)
                         else if r5 \<ge> rnd 0.3 then (''suspicious'', 70)
                         else (''legitimate'', 80))
      in \<lparr> classification = cls, phishing_score = r5, ml_confidence = conf,
           url_score = r5, text_score = 0, features_used = [] \<rparr>)"

definition combine_scores ::
  "double \<Rightarrow> double \<Rightarrow> int list \<Rightarrow> classification_result" where
  \<comment> \<open>the part of \<open>classify\<close> from "Combine scores" to the returned dict\<close>
  "combine_scores u_score t_score feats =
     (let combined_score = fadd (fmul u_score (rnd 0.7)) (fmul t_score (rnd 0.3));
          (cls, conf) = (if combined_score \<ge> rnd 0.7
                           then (''phishing'', min 95 (fmul combined_score 100))
                         else if combined_score \<ge> rnd 0.4
                           then (''suspicious'', min 85 (fmul combined_score 100))
                         else (''legitimate'', min 90 (fmul (fsub 1 combined_score) 100)))
      in \<lparr> classification = cls, phishing_score = combined_score, ml_confidence = conf,
           url_score = u_score, text_score = t_score, features_used = feats \<rparr>)"

text \<open>
  The fitted scaler and forest are the library's: \<open>predict_proba\<close> is
  \<open>url_model.predict_proba(scaler.transform(x))[0][1]\<close>, which returns a probability or
  raises.
\<close>

record classifier =
  is_trained :: bool
  predict_proba :: "int list \<Rightarrow> error + double"

definition classify ::
  "classifier \<Rightarrow> (string \<Rightarrow> error + parsed_url) \<Rightarrow> string \<Rightarrow> analysis_result \<Rightarrow>
   classification_result" where
  "classify c urlparse u analysis_data =
     (if \<not> is_trained c then fallback_classification u analysis_data
      else
        (let url_features = extract_url_features urlparse u analysis_data;
             text_content = extract_text_features analysis_data
         in case predict_proba c url_features of
              Inl e \<Rightarrow> fallback_classification u analysis_data
            | Inr u_score \<Rightarrow>
                combine_scores u_score (analyze_text_content text_content) url_features))"

text \<open>
  \<open>_initialize_pretrained_model\<close> draws its calibration data from the process-wide
  generator of \<open>numpy.random\<close> and fits the scaler and the forest on it. The generator
  state \<open>'g\<close> is threaded through; \<open>draw\<close> is the pair of calls to \<open>np.random\<close> and
  \<open>fit\<close> is the library's fitting, which returns the fitted predictor or raises.
\<close>

definition initialize_pretrained_model ::
  "('g \<Rightarrow> 'd \<times> 'g) \<Rightarrow> ('d \<Rightarrow> error + (int list \<Rightarrow> error + double)) \<Rightarrow> 'g \<Rightarrow>
   classifier \<times> 'g" where
  "initialize_pretrained_model draw fit g =
     (let (dummy, g') = draw g
      in case fit dummy of
           Inr model \<Rightarrow> (\<lparr> is_trained = True, predict_proba = model \<rparr>, g')
         | Inl e \<Rightarrow>
             (\<lparr> is_trained = False,
                predict_proba = (\<lambda>x. Inl (ValueError ''This instance is not fitted yet'')) \<rparr>,
              g'))"

section \<open>Step 9: the risk compiler\<close>

subsection \<open>String formatting\<close>

fun string_of_nat :: "nat \<Rightarrow> string" where
  "string_of_nat n =
     (if n < 10 then [char_of (48 + n)]
      else string_of_nat (n div 10) @ [char_of (48 + n mod 10)])"

declare string_of_nat.simps [simp del]

definition format_0f :: "double \<Rightarrow> string" where
  \<comment> \<open>the format \<open>:.0f\<close>, on the non-negative values the classifier gives: the nearest
      integer to the value of the float, ties to even\<close>
  "format_0f x =
     (let r = round_half_even x
      in if r < 0 then ''-'' @ string_of_nat (nat (- r)) else string_of_nat (nat r))"

fun join :: "string \<Rightarrow> string list \<Rightarrow> string" where
  \<comment> \<open>\<open>sep.join(xs)\<close>\<close>
  "join sep [] = []"
| "join sep [x] = x"
| "join sep (x # y # ys) = x @ sep @ join sep (y # ys)"

subsection \<open>Risk score and evidence\<close>

text \<open>
  The function keeps two locals, \<open>risk_score\<close> and \<open>evidence\<close>; each block of rules
  updates the pair. \<open>risk_score\<close> starts as the integer 0 and is a float from the first
  addition on; an integer that is added is converted to a float first.
\<close>

type_synonym tally = "double \<times> string list"

definition add_points :: "double \<Rightarrow> tally \<Rightarrow> tally" where
  \<comment> \<open>\<open>risk_score += points\<close>\<close>
  "add_points points t = (fadd (fst t) points, snd t)"

definition add_evidence :: "string \<Rightarrow> tally \<Rightarrow> tally" where
  \<comment> \<open>\<open>evidence.append(text)\<close>\<close>
  "add_evidence text t = (fst t, snd t @ [text])"

definition add_risk :: "double \<Rightarrow> string \<Rightarrow> tally \<Rightarrow> tally" where
  \<comment> \<open>\<open>risk_score += points; evidence.append(text)\<close>\<close>
  "add_risk points text t = add_evidence text (add_points points t)"

definition ml_risks :: "classification_result \<Rightarrow> tally \<Rightarrow> tally" where
  "ml_risks ml_result t =
     (let ml_score = fmul (phishing_score ml_result) 100;
          t1 = add_points (fmul ml_score (rnd 0.6)) t
      in if classification ml_result = ''phishing'' then
           add_evidence (''ML classifier detected phishing patterns (confidence: '' @
                         format_0f (ml_confidence ml_result) @ ''%)'') t1
         else if classification ml_result = ''suspicious'' then
           add_evidence (''ML classifier flagged as suspicious (confidence: '' @
                         format_0f (ml_confidence ml_result) @ ''%)'') t1
         else t1)"

definition url_is_ip :: "steps \<Rightarrow> bool" where
  "url_is_ip st = (case st_normalization st of None \<Rightarrow> False | Some n \<Rightarrow> is_ip n)"

definition url_has_punycode :: "steps \<Rightarrow> bool" where
  "url_has_punycode st = (case st_normalization st of None \<Rightarrow> False | Some n \<Rightarrow> has_punycode n)"

definition url_length_of :: "steps \<Rightarrow> nat" where
  "url_length_of st = (case st_normalization st of None \<Rightarrow> 0 | Some n \<Rightarrow> url_length n)"

definition url_structure_risks :: "steps \<Rightarrow> tally \<Rightarrow> tally" where
  "url_structure_risks st t =
     (let t1 = (if url_is_ip st
                then add_risk 12 ''URL uses IP address instead of domain name'' t else t);
          t2 = (if url_has_punycode st
                then add_risk 8 ''URL contains punycode (internationalized domain)'' t1 else t1);
          t3 = (if url_length_of st > 100 then add_risk 4 ''Unusually long URL'' t2 else t2)
      in t3)"

definition redirect_risks :: "steps \<Rightarrow> tally \<Rightarrow> tally" where
  "redirect_risks st t =
     (let redirect_count = redirect_count_of st
      in if redirect_count > 2 then
           add_risk (rnd (real (6 * redirect_count)))
             (''Multiple redirects detected ('' @ string_of_nat redirect_count @ '' redirects)'') t
         else t)"

definition content_risks :: "steps \<Rightarrow> tally \<Rightarrow> tally" where
  "content_risks st t =
     (if login_form_of st then add_risk 10 ''Contains login form'' t else t)"

definition suspicious_keywords_of :: "steps \<Rightarrow> string list" where
  "suspicious_keywords_of st =
     (case st_token_analysis st of None \<Rightarrow> [] | Some ta \<Rightarrow> suspicious_keywords ta)"

definition token_risks :: "steps \<Rightarrow> tally \<Rightarrow> tally" where
  "token_risks st t =
     (let suspicious_count = length (suspicious_keywords_of st)
      in if suspicious_count > 0 then
           add_risk (rnd (real (4 * suspicious_count)))
             (''Contains suspicious keywords: '' @ join '', '' (suspicious_keywords_of st)) t
         else t)"

definition indicator_points :: "string \<Rightarrow> double option" where
  \<comment> \<open>the \<open>if\<close>/\<open>elif\<close> chain of the loop; \<open>None\<close> when no branch is taken\<close>
  "indicator_points indicator =
     (if py_in ''external domain'' indicator then Some 16
      else if py_in ''login form'' indicator then Some 12
      else if py_in ''external scripts'' indicator then Some 6
      else None)"

definition phishing_indicators_of :: "steps \<Rightarrow> string list" where
  "phishing_indicators_of st =
     (case st_screenshot_analysis st of
        None \<Rightarrow> []
      | Some sd \<Rightarrow> (case phishing_indicators sd of None \<Rightarrow> [] | Some xs \<Rightarrow> xs))"

fun screenshot_risks :: "string list \<Rightarrow> tally \<Rightarrow> tally" where
  \<comment> \<open>the loop over the indicators: the text is appended whichever branch is taken\<close>
  "screenshot_risks [] t = t"
| "screenshot_risks (indicator # rest) t =
     screenshot_risks rest
       (add_evidence indicator
          (case indicator_points indicator of
             None \<Rightarrow> t
           | Some points \<Rightarrow> add_points points t))"

definition tally_of :: "classification_result \<Rightarrow> analysis_result \<Rightarrow> tally" where
  \<comment> \<open>the two locals just before "Determine verdict"\<close>
  "tally_of ml_result analysis =
     (let st = ar_steps analysis
      in screenshot_risks (phishing_indicators_of st)
           (token_risks st
             (content_risks st
               (redirect_risks st
                 (url_structure_risks st
                   (ml_risks ml_result (0, [])))))))"

subsection \<open>Verdict and assessment\<close>

record risk_assessment =
  verdict :: string
  confidence :: double
  risk_score :: double
  evidence :: "string list"

definition verdict_of :: "double \<Rightarrow> string" where
  "verdict_of score =
     (if score \<ge> 70 then ''dangerous''
      else if score \<ge> 40 then ''suspicious''
      else ''safe'')"

definition assess :: "classification_result \<Rightarrow> analysis_result \<Rightarrow> risk_assessment" where
  \<comment> \<open>\<open>_compile_risk_assessment\<close> after the classifier has answered\<close>
  "assess ml_result analysis =
     (let t = tally_of ml_result analysis
      in \<lparr> verdict = verdict_of (fst t),
           confidence = min 95 (max 60 (fsub 100 \<bar>fsub (fst t) 50\<bar>)),
           risk_score = fst t,
           evidence = take 6 (snd t) \<rparr>)"

text \<open>
  Each call constructs a new \<open>MLClassifier\<close>, so each call draws from the generator and
  fits again. \<open>classify\<close> handles its own failures, so the \<open>except\<close> branch of the
  compiler is not reached.
\<close>

definition compile_risk_assessment ::
  "('g \<Rightarrow> 'd \<times> 'g) \<Rightarrow> ('d \<Rightarrow> error + (int list \<Rightarrow> error + double)) \<Rightarrow>
   (string \<Rightarrow> error + parsed_url) \<Rightarrow> 'g \<Rightarrow> analysis_result \<Rightarrow> risk_assessment \<times> 'g" where
  "compile_risk_assessment draw fit urlparse g analysis =
     (let (c, g') = initialize_pretrained_model draw fit g;
          ml_result = classify c urlparse (ar_url analysis) analysis
      in (assess ml_result analysis, g'))"

section \<open>Example inputs\<close>

definition example_urlparse :: "string \<Rightarrow> error + parsed_url" where
  \<comment> \<open>what \<open>urlparse\<close> gives on the URLs of the examples\<close>
  "example_urlparse u =
     (if u = ''http://['' then Inl (ValueError ''Invalid IPv6 URL'')
      else if u = ''http://192.168.0.5/login''
        then Inr \<lparr> scheme = ''http'', netloc = ''192.168.0.5'', path = ''/login'', query = [] \<rparr>
      else if u = ''https://192.168.0.5/login''
        then Inr \<lparr> scheme = ''https'', netloc = ''192.168.0.5'', path = ''/login'', query = [] \<rparr>
      else if u = ''https://example.com/''
        then Inr \<lparr> scheme = ''https'', netloc = ''example.com'', path = ''/'', query = [] \<rparr>
      else Inr \<lparr> scheme = [], netloc = [], path = u, query = [] \<rparr>)"

definition example_idna :: "string \<Rightarrow> error + string" where
  \<comment> \<open>what \<open>idna.decode\<close> gives on the hostnames of the examples\<close>
  "example_idna h =
     (if h = ''xn--mnchen-3ya.de'' then Inr (''m'' @ [CHR 0xFC] @ ''nchen.de'')
      else if h = ''192.168.0.5'' then Inr ''192.168.0.5''
      else Inl (IDNAError ''Invalid label''))"

definition no_steps :: steps where
  "no_steps = \<lparr> st_normalization = None, st_dns_whois = None, st_http_analysis = None,
                st_token_analysis = None, st_content_analysis = None,
                st_screenshot_analysis = None \<rparr>"

definition example_analysis :: analysis_result where
  "example_analysis = \<lparr> ar_job_id = ''job-1'', ar_url = ''http://['', ar_steps = no_steps \<rparr>"


definition example_hop :: hop where
  "example_hop = \<lparr> hop_url = ''http://a.example/'', hop_status = 302, hop_location = ''/next'' \<rparr>"

definition risky_steps :: steps where
  "risky_steps =
     \<lparr> st_normalization = Some \<lparr> original_url = ''http://192.168.0.5/login'', domain = [],
                                  subdomain = [], suffix = [], is_ip = True, has_punycode = True,
                                  url_length = 120, path_length = 6, query_length = 0 \<rparr>,
       st_dns_whois = None,
       st_http_analysis = Some \<lparr> redirect_chain = [example_hop, example_hop, example_hop],
                                  final_url = ''http://a.example/next'', status_code = Some 200,
                                  headers = [], html_content = [], http_error = None \<rparr>,
       st_token_analysis = Some \<lparr> suspicious_keywords = [''login'', ''bank''],
                                   long_hex_tokens = [], base64_patterns = [],
                                   subdomain_count = 4, has_homoglyphs = False \<rparr>,
       st_content_analysis = Some (empty_content\<lparr>has_login_form := Some True\<rparr>),
       st_screenshot_analysis =
         Some \<lparr> page_title = Some ''Verify suspended urgent'', meta_description = None,
                viewport_content = None,
                phishing_indicators = Some [''Form posts to external domain'',
                                            ''Contains login form with email/password fields'',
                                            ''High number of external scripts (7)''],
                analysis_success = Some True, screenshot_error = None \<rparr> \<rparr>"

definition risky_analysis :: analysis_result where
  "risky_analysis = \<lparr> ar_job_id = ''job-2'', ar_url = ''http://192.168.0.5/login'',
                       ar_steps = risky_steps \<rparr>"

definition example_ml :: classification_result where
  "example_ml = \<lparr> classification = ''phishing'', phishing_score = rnd 0.71,
                   ml_confidence = 71, url_score = rnd 0.8, text_score = rnd 0.5,
                   features_used = [] \<rparr>"

definition boundary_ml :: classification_result where
  \<comment> \<open>the answer of a trained classifier for this URL score and a text without keywords\<close>
  "boundary_ml = combine_scores (rnd 0.9523809523809523) 0 []"

definition boundary_analysis :: analysis_result where
  "boundary_analysis =
     \<lparr> ar_job_id = ''job-3'', ar_url = ''http://192.168.0.5/login'',
       ar_steps =
         \<lparr> st_normalization =
             Some \<lparr> original_url = ''http://192.168.0.5/login'', domain = [], subdomain = [],
                    suffix = [], is_ip = True, has_punycode = True, url_length = 24,
                    path_length = 6, query_length = 0 \<rparr>,
           st_dns_whois = None, st_http_analysis = None, st_token_analysis = None,
           st_content_analysis = Some (empty_content\<lparr>has_login_form := Some True\<rparr>),
           st_screenshot_analysis = None \<rparr> \<rparr>"

definition trained_classifier :: classifier where
  "trained_classifier = \<lparr> is_trained = True, predict_proba = (\<lambda>x. Inr (rnd 0.8)) \<rparr>"






definition example_extract :: "string \<Rightarrow> error + extract_result" where
  "example_extract h =
     Inr (if h = ''example.com''
          then \<lparr> ex_subdomain = [], ex_domain = ''example'', ex_suffix = ''com'',
                 registered_domain = ''example.com'' \<rparr>
          else \<lparr> ex_subdomain = [], ex_domain = h, ex_suffix = [],
                 registered_domain = [] \<rparr>)"

definition example_inet_aton :: "string \<Rightarrow> error + unit" where
  "example_inet_aton h =
     (if h = ''192.168.0.5'' then Inr ()
      else Inl (OSError ''illegal IP address string passed to inet_aton''))"






definition example_draw :: "nat \<Rightarrow> nat \<times> nat" where
  \<comment> \<open>a generator whose state is a counter; the data drawn is the count\<close>
  "example_draw g = (g, g + 1)"

definition example_fit :: "nat \<Rightarrow> error + (int list \<Rightarrow> error + double)" where
  \<comment> \<open>a fit whose predictor depends on the data drawn\<close>
  "example_fit d = Inr (\<lambda>x. Inr (if even d then rnd 0.1 else rnd 0.9))"


section \<open>The punycode flag\<close>

text \<open>
  Claim C10. \<open>_has_punycode\<close> always returns a truth value. It returns \<open>False\<close> whenever the
  hostname has a non-ASCII character and whenever IDNA decoding raises; it returns
  \<open>True\<close> exactly when the hostname is pure ASCII and IDNA decoding returns a string that
  differs from the hostname.
\<close>

theorem has_punycode_conservative:
  "(\<not> (\<forall>c \<in> set hostname. (of_char c :: nat) < 128) \<longrightarrow>
      \<not> has_punycode_of idna_decode hostname) \<and>
   ((\<exists>e. idna_decode hostname = Inl e) \<longrightarrow> \<not> has_punycode_of idna_decode hostname) \<and>
   (has_punycode_of idna_decode hostname \<longleftrightarrow>
      (\<forall>c \<in> set hostname. (of_char c :: nat) < 128) \<and>
      (\<exists>decoded. idna_decode hostname = Inr decoded \<and> decoded \<noteq> hostname))"
  by (auto simp: has_punycode_of_def encode_ascii_def split: sum.splits)

theorem has_punycode_conservative_witness:
  "has_punycode_of example_idna ''xn--mnchen-3ya.de'' \<and>
   \<not> has_punycode_of example_idna (''m'' @ [CHR 0xFC] @ ''nchen.de'') \<and>
   \<not> has_punycode_of example_idna ''192.168.0.5'' \<and>
   \<not> has_punycode_of example_idna ''example.com:8080''"
  using has_punycode_conservative [of "''xn--mnchen-3ya.de''" example_idna]
        has_punycode_conservative [of "''m'' @ [CHR 0xFC] @ ''nchen.de''" example_idna]
        has_punycode_conservative [of "''192.168.0.5''" example_idna]
        has_punycode_conservative [of "''example.com:8080''" example_idna]
  by (simp add: example_idna_def)


section \<open>The verdict\<close>

text \<open>
  Claim C4. The verdict of every assessment is fixed by its risk score: dangerous from 70
  on, suspicious from 40 up to 70, safe below 40. Both lower bounds belong to the higher
  verdict: 69.9 is suspicious and 70.0 dangerous, 39.9 is safe and 40.0 suspicious.
\<close>

theorem verdict_thresholds:
  "verdict (fst (compile_risk_assessment draw fit urlparse g analysis)) =
     (if risk_score (fst (compile_risk_assessment draw fit urlparse g analysis)) \<ge> 70
        then ''dangerous''
      else if risk_score (fst (compile_risk_assessment draw fit urlparse g analysis)) \<ge> 40
        then ''suspicious''
      else ''safe'') \<and>
   verdict_of 69.9 = ''suspicious'' \<and> verdict_of 70.0 = ''dangerous'' \<and>
   verdict_of 39.9 = ''safe'' \<and> verdict_of 40.0 = ''suspicious''"
  by (simp add: compile_risk_assessment_def assess_def verdict_of_def Let_def split: prod.splits)


section \<open>The feature vector\<close>

text \<open>
  Claim C8. \<open>extract_url_features\<close> returns 15 numbers for every URL and every analysis
  record, and when the extraction raises it returns fifteen zeros in place of the
  exception.
\<close>

theorem extract_url_features_length:
  "length (extract_url_features urlparse u analysis_data) = 15 \<and>
   ((\<exists>e. urlparse u = Inl e) \<longrightarrow>
      extract_url_features urlparse u analysis_data =
        [0, 0, 0, 0, 0, 0, 0, 0, 0, 0, 0, 0, 0, 0, 0])"
  by (auto simp: extract_url_features_def numeral_eq_Suc split: sum.splits)

theorem extract_url_features_length_witness:
  "(\<exists>e. example_urlparse ''http://['' = Inl e) \<and>
   extract_url_features example_urlparse ''http://['' example_analysis =
     [0, 0, 0, 0, 0, 0, 0, 0, 0, 0, 0, 0, 0, 0, 0]"
  using extract_url_features_length [of example_urlparse "''http://[''" example_analysis]
  by (simp add: example_urlparse_def)


section \<open>Evaluation lemmas\<close>

lemmas rnd_eval = rnd_def floor_log2_def pow2_def round_half_even_def bit_length.simps Let_def

lemmas float_eval = fadd_def fsub_def fmul_def fdiv_def rnd_eval

lemma startswith_simps:
  "startswith s [] = True"
  "startswith [] (p # ps) = False"
  "startswith (c # cs) (p # ps) = (c = p \<and> startswith cs ps)"
  by (auto simp: startswith_def)

lemma screenshot_risks_closed:
  "screenshot_risks xs t =
     (foldl fadd (fst t) (List.map_filter indicator_points xs), snd t @ xs)"
  by (induction xs arbitrary: t)
     (simp_all add: add_evidence_def add_points_def map_filter_simps split: option.splits)

lemma indicator_values:
  "indicator_points ''Form posts to external domain'' = Some 16"
  "indicator_points ''Contains login form with email/password fields'' = Some 12"
  "indicator_points ''High number of external scripts (7)'' = Some 6"
  by (simp_all add: indicator_points_def startswith_simps)

lemma ml_risks_closed:
  "ml_risks ml t =
     (fadd (fst t) (fmul (fmul (phishing_score ml) 100) (rnd 0.6)),
      snd t @
      (if classification ml = ''phishing''
         then [''ML classifier detected phishing patterns (confidence: '' @
               format_0f (ml_confidence ml) @ ''%)'']
       else if classification ml = ''suspicious''
         then [''ML classifier flagged as suspicious (confidence: '' @
               format_0f (ml_confidence ml) @ ''%)'']
       else []))"
  by (simp add: ml_risks_def add_evidence_def add_points_def Let_def)

lemma url_structure_risks_closed:
  "url_structure_risks st t =
     (foldl fadd (fst t)
        ((if url_is_ip st then [12] else []) @
         (if url_has_punycode st then [8] else []) @
         (if url_length_of st > 100 then [4] else [])),
      snd t @
      (if url_is_ip st then [''URL uses IP address instead of domain name''] else []) @
      (if url_has_punycode st then [''URL contains punycode (internationalized domain)''] else []) @
      (if url_length_of st > 100 then [''Unusually long URL''] else []))"
  by (simp add: url_structure_risks_def add_risk_def add_evidence_def add_points_def Let_def)

lemma redirect_risks_closed:
  "redirect_risks st t =
     (foldl fadd (fst t)
        (if redirect_count_of st > 2 then [rnd (real (6 * redirect_count_of st))] else []),
      snd t @
      (if redirect_count_of st > 2
         then [''Multiple redirects detected ('' @ string_of_nat (redirect_count_of st) @
               '' redirects)'']
       else []))"
  by (simp add: redirect_risks_def add_risk_def add_evidence_def add_points_def Let_def)

lemma content_risks_closed:
  "content_risks st t =
     (foldl fadd (fst t) (if login_form_of st then [10] else []),
      snd t @ (if login_form_of st then [''Contains login form''] else []))"
  by (simp add: content_risks_def add_risk_def add_evidence_def add_points_def)

lemma token_risks_closed:
  "token_risks st t =
     (foldl fadd (fst t)
        (if suspicious_keywords_of st \<noteq> []
           then [rnd (real (4 * length (suspicious_keywords_of st)))] else []),
      snd t @
      (if suspicious_keywords_of st \<noteq> []
         then [''Contains suspicious keywords: '' @ join '', '' (suspicious_keywords_of st)]
       else []))"
  by (simp add: token_risks_def add_risk_def add_evidence_def add_points_def Let_def)

lemma tally_of_closed:
  "tally_of ml analysis =
     (foldl fadd 0
        ([fmul (fmul (phishing_score ml) 100) (rnd 0.6)] @
         (if url_is_ip (ar_steps analysis) then [12] else []) @
         (if url_has_punycode (ar_steps analysis) then [8] else []) @
         (if url_length_of (ar_steps analysis) > 100 then [4] else []) @
         (if redirect_count_of (ar_steps analysis) > 2
            then [rnd (real (6 * redirect_count_of (ar_steps analysis)))] else []) @
         (if login_form_of (ar_steps analysis) then [10] else []) @
         (if suspicious_keywords_of (ar_steps analysis) \<noteq> []
            then [rnd (real (4 * length (suspicious_keywords_of (ar_steps analysis))))]
          else []) @
         List.map_filter indicator_points (phishing_indicators_of (ar_steps analysis))),
      (if classification ml = ''phishing''
         then [''ML classifier detected phishing patterns (confidence: '' @
               format_0f (ml_confidence ml) @ ''%)'']
       else if classification ml = ''suspicious''
         then [''ML classifier flagged as suspicious (confidence: '' @
               format_0f (ml_confidence ml) @ ''%)'']
       else []) @
      (if url_is_ip (ar_steps analysis)
         then [''URL uses IP address instead of domain name''] else []) @
      (if url_has_punycode (ar_steps analysis)
         then [''URL contains punycode (internationalized domain)''] else []) @
      (if url_length_of (ar_steps analysis) > 100 then [''Unusually long URL''] else []) @
      (if redirect_count_of (ar_steps analysis) > 2
         then [''Multiple redirects detected ('' @
               string_of_nat (redirect_count_of (ar_steps analysis)) @ '' redirects)'']
       else []) @
      (if login_form_of (ar_steps analysis) then [''Contains login form''] else []) @
      (if suspicious_keywords_of (ar_steps analysis) \<noteq> []
         then [''Contains suspicious keywords: '' @
               join '', '' (suspicious_keywords_of (ar_steps analysis))]
       else []) @
      phishing_indicators_of (ar_steps analysis))"
  unfolding tally_of_def Let_def screenshot_risks_closed token_risks_closed
    content_risks_closed redirect_risks_closed url_structure_risks_closed ml_risks_closed
    fst_conv snd_conv
  by (simp only: foldl_append foldl_Cons foldl_Nil append_Nil append_assoc)

lemma risky_readers:
  "url_is_ip (ar_steps risky_analysis)"
  "url_has_punycode (ar_steps risky_analysis)"
  "url_length_of (ar_steps risky_analysis) = 120"
  "redirect_count_of (ar_steps risky_analysis) = 3"
  "login_form_of (ar_steps risky_analysis)"
  "suspicious_keywords_of (ar_steps risky_analysis) = [''login'', ''bank'']"
  "phishing_indicators_of (ar_steps risky_analysis) =
     [''Form posts to external domain'', ''Contains login form with email/password fields'',
      ''High number of external scripts (7)'']"
  by (simp_all add: risky_analysis_def risky_steps_def url_is_ip_def url_has_punycode_def
        url_length_of_def redirect_count_of_def login_form_of_def empty_content_def
        suspicious_keywords_of_def phishing_indicators_of_def)

lemma ex_evidence:
  "snd (tally_of example_ml risky_analysis) =
    [''ML classifier detected phishing patterns (confidence: 71%)'',
     ''URL uses IP address instead of domain name'',
     ''URL contains punycode (internationalized domain)'',
     ''Unusually long URL'',
     ''Multiple redirects detected (3 redirects)'',
     ''Contains login form'',
     ''Contains suspicious keywords: login, bank'',
     ''Form posts to external domain'',
     ''Contains login form with email/password fields'',
     ''High number of external scripts (7)'']"
  by (simp add: tally_of_closed risky_readers example_ml_def format_0f_def round_half_even_def
        string_of_nat.simps char_of_def bit_0)

lemma ex_risk_score:
  "fst (tally_of example_ml risky_analysis) = rnd 136.6"
proof -
  have "fst (tally_of example_ml risky_analysis) =
        foldl fadd 0 [fmul (fmul (rnd 0.71) 100) (rnd 0.6), 12, 8, 4, rnd 18, 10, rnd 8,
                      16, 12, 6]"
    by (simp add: tally_of_closed risky_readers example_ml_def map_filter_simps
          indicator_values)
  also have "\<dots> = rnd 136.6"
    by (simp add: float_eval)
  finally show ?thesis .
qed

lemma ex_text: "extract_text_features risky_analysis = ''Verify suspended urgent''"
  by (simp add: extract_text_features_def risky_analysis_def risky_steps_def text_part_def
        empty_content_def strip_def py_isspace_def)

lemma ex_text_score: "analyze_text_content ''Verify suspended urgent'' = 1 / 2"
proof -
  have "analyze_text_content ''Verify suspended urgent'' =
        min 1 (fdiv (fadd (fadd (fadd 0 (rnd 0.3)) (rnd 0.4)) (rnd 0.3)) 2)"
    unfolding analyze_text_content_def Let_def phishing_keywords_def
    by (simp add: startswith_simps lower_def py_lower_char_def char_of_def bit_0)
  also have "\<dots> = 1 / 2"
    by (simp add: float_eval)
  finally show ?thesis .
qed


lemma boundary_score:
  "phishing_score boundary_ml = 6004799503160661 / 9007199254740992"
  "classification boundary_ml = ''suspicious''"
  by (simp_all add: boundary_ml_def combine_scores_def float_eval)

lemma boundary_readers:
  "url_is_ip (ar_steps boundary_analysis)"
  "url_has_punycode (ar_steps boundary_analysis)"
  "url_length_of (ar_steps boundary_analysis) = 24"
  "redirect_count_of (ar_steps boundary_analysis) = 0"
  "login_form_of (ar_steps boundary_analysis)"
  "suspicious_keywords_of (ar_steps boundary_analysis) = []"
  "phishing_indicators_of (ar_steps boundary_analysis) = []"
  by (simp_all add: boundary_analysis_def url_is_ip_def url_has_punycode_def
        url_length_of_def redirect_count_of_def login_form_of_def empty_content_def
        suspicious_keywords_of_def phishing_indicators_of_def)

lemma boundary_risk: "fst (tally_of boundary_ml boundary_analysis) = 70"
proof -
  have "fst (tally_of boundary_ml boundary_analysis) =
        foldl fadd 0 [fmul (fmul (6004799503160661 / 9007199254740992) 100) (rnd 0.6),
                      12, 8, 10]"
    by (simp add: tally_of_closed boundary_readers boundary_score map_filter_simps)
  also have "\<dots> = 70"
    by (simp add: float_eval)
  finally show ?thesis .
qed


section \<open>The risk score\<close>

text \<open>
  Claim C5, as stated, fails: the risk score is a sum of floats, each addition and each
  product rounded, and it differs from the exact value of the formula. For a classifier
  score of two thirds, an IP-literal host, a punycode host and a login form, the code
  returns exactly 70, a dangerous verdict, while the formula gives less than 70, whether
  the score in percent is taken exactly or as the float product, and whether 0.6 is the
  decimal or its float.
\<close>

theorem risk_score_exact_counterexample:
  "risk_score (assess boundary_ml boundary_analysis) = 70 \<and>
   verdict (assess boundary_ml boundary_analysis) = ''dangerous'' \<and>
   phishing_score boundary_ml * 100 * 0.6 + 12 + 8 + 10 < 70 \<and>
   fmul (phishing_score boundary_ml) 100 * 0.6 + 12 + 8 + 10 < 70 \<and>
   fmul (phishing_score boundary_ml) 100 * rnd 0.6 + 12 + 8 + 10 < 70"
proof (intro conjI)
  show "fmul (phishing_score boundary_ml) 100 * rnd 0.6 + 12 + 8 + 10 < 70"
    by (simp add: boundary_score float_eval)
  show "risk_score (assess boundary_ml boundary_analysis) = 70"
    by (simp add: assess_def Let_def boundary_risk)
  show "verdict (assess boundary_ml boundary_analysis) = ''dangerous''"
    by (simp add: assess_def Let_def boundary_risk verdict_of_def)
  show "phishing_score boundary_ml * 100 * 0.6 + 12 + 8 + 10 < 70"
    by (simp add: boundary_score)
  show "fmul (phishing_score boundary_ml) 100 * 0.6 + 12 + 8 + 10 < 70"
    by (simp add: boundary_score float_eval)
qed

text \<open>
  Claim C5, amended. The risk score of every assessment is the float sum, taken from 0 in
  this order and rounded after each addition, of the classifier's score in percent times
  0.6 (two float products) and the contributions of the triggered rules: 12 for an
  IP-literal host, 8 for a punycode host, 4 for a URL longer than 100, 6 for each hop when
  there are more than 2 hops, 10 for a login form, 4 for each suspicious keyword, and for
  each dynamic indicator the amount of the first of the substrings "external domain" (16),
  "login form" (12), "external scripts" (6) that occurs in it. The evidence appended is,
  in this order, one string for the classifier when it says phishing or suspicious, one
  string for each of the six rules that is triggered, and the text of each indicator.
\<close>

theorem risk_score_formula:
  "risk_score (assess ml analysis) =
     foldl fadd 0
       ([fmul (fmul (phishing_score ml) 100) (rnd 0.6)] @
        (if url_is_ip (ar_steps analysis) then [12] else []) @
        (if url_has_punycode (ar_steps analysis) then [8] else []) @
        (if url_length_of (ar_steps analysis) > 100 then [4] else []) @
        (if redirect_count_of (ar_steps analysis) > 2
           then [rnd (real (6 * redirect_count_of (ar_steps analysis)))] else []) @
        (if login_form_of (ar_steps analysis) then [10] else []) @
        (if suspicious_keywords_of (ar_steps analysis) \<noteq> []
           then [rnd (real (4 * length (suspicious_keywords_of (ar_steps analysis))))]
         else []) @
        List.map_filter indicator_points (phishing_indicators_of (ar_steps analysis))) \<and>
   indicator_points indicator =
     (if py_in ''external domain'' indicator then Some 16
      else if py_in ''login form'' indicator then Some 12
      else if py_in ''external scripts'' indicator then Some 6
      else None) \<and>
   snd (tally_of ml analysis) =
     (if classification ml = ''phishing''
        then [''ML classifier detected phishing patterns (confidence: '' @
              format_0f (ml_confidence ml) @ ''%)'']
      else if classification ml = ''suspicious''
        then [''ML classifier flagged as suspicious (confidence: '' @
              format_0f (ml_confidence ml) @ ''%)'']
      else []) @
     (if url_is_ip (ar_steps analysis)
        then [''URL uses IP address instead of domain name''] else []) @
     (if url_has_punycode (ar_steps analysis)
        then [''URL contains punycode (internationalized domain)''] else []) @
     (if url_length_of (ar_steps analysis) > 100 then [''Unusually long URL''] else []) @
     (if redirect_count_of (ar_steps analysis) > 2
        then [''Multiple redirects detected ('' @
              string_of_nat (redirect_count_of (ar_steps analysis)) @ '' redirects)'']
      else []) @
     (if login_form_of (ar_steps analysis) then [''Contains login form''] else []) @
     (if suspicious_keywords_of (ar_steps analysis) \<noteq> []
        then [''Contains suspicious keywords: '' @
              join '', '' (suspicious_keywords_of (ar_steps analysis))]
      else []) @
     phishing_indicators_of (ar_steps analysis)"
proof (intro conjI)
  show "indicator_points indicator =
     (if py_in ''external domain'' indicator then Some 16
      else if py_in ''login form'' indicator then Some 12
      else if py_in ''external scripts'' indicator then Some 6
      else None)"
    by (rule indicator_points_def)
qed (simp_all only: assess_def Let_def tally_of_closed fst_conv snd_conv
       risk_assessment.select_convs)

theorem risk_score_formula_witness:
  "risk_score (assess example_ml risky_analysis) = rnd 136.6 \<and>
   length (snd (tally_of example_ml risky_analysis)) = 10"
proof
  note inst = risk_score_formula [of example_ml risky_analysis "''Form posts to external domain''"]
  have "risk_score (assess example_ml risky_analysis) =
        foldl fadd 0 [fmul (fmul (rnd 0.71) 100) (rnd 0.6), 12, 8, 4, rnd 18, 10, rnd 8,
                      16, 12, 6]"
    unfolding inst [THEN conjunct1]
    by (simp add: risky_readers example_ml_def map_filter_simps indicator_values)
  also have "\<dots> = rnd 136.6"
    by (simp add: float_eval)
  finally show "risk_score (assess example_ml risky_analysis) = rnd 136.6" .
  show "length (snd (tally_of example_ml risky_analysis)) = 10"
    unfolding inst [THEN conjunct2, THEN conjunct2]
    by (simp add: risky_readers example_ml_def)
qed


section \<open>The evidence cap\<close>

text \<open>
  Claim C6. The assessment exposes the first 6 of the appended evidence strings, in the
  order in which they were appended: exactly 6 when more than 6 were appended, whatever
  the later contributions are, and all of them when 6 or fewer were appended.
\<close>

theorem evidence_cap:
  "evidence (assess ml analysis) = take 6 (snd (tally_of ml analysis)) \<and>
   length (evidence (assess ml analysis)) = min 6 (length (snd (tally_of ml analysis))) \<and>
   (\<forall>i < length (evidence (assess ml analysis)).
      evidence (assess ml analysis) ! i = snd (tally_of ml analysis) ! i) \<and>
   (length (snd (tally_of ml analysis)) > 6 \<longrightarrow> length (evidence (assess ml analysis)) = 6) \<and>
   (length (snd (tally_of ml analysis)) \<le> 6 \<longrightarrow>
      evidence (assess ml analysis) = snd (tally_of ml analysis))"
  by (auto simp: assess_def Let_def)

theorem evidence_cap_witness:
  "length (snd (tally_of example_ml risky_analysis)) = 10 \<and>
   evidence (assess example_ml risky_analysis) =
     [''ML classifier detected phishing patterns (confidence: 71%)'',
      ''URL uses IP address instead of domain name'',
      ''URL contains punycode (internationalized domain)'',
      ''Unusually long URL'',
      ''Multiple redirects detected (3 redirects)'',
      ''Contains login form'']"
  using evidence_cap [of example_ml risky_analysis]
  by (simp add: ex_evidence)


section \<open>The combined classifier score\<close>

lemma combine_04:
  "phishing_score (combine_scores (rnd 0.4) (rnd 0.4) []) = rnd 0.39999999999999997"
  "classification (combine_scores (rnd 0.4) (rnd 0.4) []) = ''legitimate''"
  "ml_confidence (combine_scores (rnd 0.4) (rnd 0.4) []) = rnd 60.00000000000001"
  by (simp_all add: combine_scores_def float_eval)

lemma combine_031:
  "phishing_score (combine_scores (rnd 0.31) (rnd 0.61) []) = rnd 0.4"
  "classification (combine_scores (rnd 0.31) (rnd 0.61) []) = ''suspicious''"
  "ml_confidence (combine_scores (rnd 0.31) (rnd 0.61) []) = 40"
  by (simp_all add: combine_scores_def float_eval)

lemma rnd_values:
  "rnd 0.4 = 3602879701896397 / 9007199254740992"
  "rnd 0.7 = 3152519739159347 / 4503599627370496"
  "rnd 0.3 = 5404319552844595 / 18014398509481984"
  "rnd 0.31 = 5584463537939415 / 18014398509481984"
  "rnd 0.61 = 5494391545392005 / 9007199254740992"
  "rnd 0.39999999999999997 = 7205759403792793 / 18014398509481984"
  by (simp_all add: rnd_eval)

text \<open>
  Claim C7, as stated, fails: the combined score is computed in floats, rounded after each
  product and after the sum. For the URL score 0.4 and the text score 0.4 the exact value
  of 0.7 times the one plus 0.3 times the other is at least 0.4, which the claim
  classifies as suspicious, while the code computes a score below 0.4 and answers
  legitimate, with confidence 60.00000000000001. For the URL score 0.31 and the text
  score 0.61 the exact value is below 0.4, also when 0.7, 0.3 and 0.4 are taken as the
  floats of these literals, which the claim classifies as legitimate, while the code
  computes the float 0.4 and answers suspicious, with confidence 40.
\<close>

theorem classify_exact_counterexample:
  "0 \<le> rnd 0.4 \<and> rnd 0.4 \<le> 1 \<and>
   0.4 \<le> 0.7 * rnd 0.4 + 0.3 * rnd 0.4 \<and>
   0.7 * rnd 0.4 + 0.3 * rnd 0.4 < 0.7 \<and>
   phishing_score (combine_scores (rnd 0.4) (rnd 0.4) []) < 0.4 \<and>
   classification (combine_scores (rnd 0.4) (rnd 0.4) []) = ''legitimate'' \<and>
   ml_confidence (combine_scores (rnd 0.4) (rnd 0.4) []) = rnd 60.00000000000001 \<and>
   0 \<le> rnd 0.31 \<and> rnd 0.31 \<le> 1 \<and> 0 \<le> rnd 0.61 \<and> rnd 0.61 \<le> 1 \<and>
   0.7 * rnd 0.31 + 0.3 * rnd 0.61 < 0.4 \<and>
   rnd 0.7 * rnd 0.31 + rnd 0.3 * rnd 0.61 < rnd 0.4 \<and>
   phishing_score (combine_scores (rnd 0.31) (rnd 0.61) []) = rnd 0.4 \<and>
   classification (combine_scores (rnd 0.31) (rnd 0.61) []) = ''suspicious'' \<and>
   ml_confidence (combine_scores (rnd 0.31) (rnd 0.61) []) = 40"
  unfolding combine_04 combine_031 unfolding rnd_values by simp

text \<open>
  Claim C7, amended. The combined score is the float sum of the float products of the URL
  score with 0.7 and of the text score with 0.3. The classification is phishing with
  confidence min(95, score * 100) when this score is at least 0.7, suspicious with
  confidence min(85, score * 100) when it is at least 0.4 and below 0.7, and legitimate
  with confidence min(90, (1 - score) * 100) below 0.4, the products and the difference
  being float operations and 0.7 and 0.4 the floats of these literals. A trained
  classifier whose model returns a URL score answers with this combination. With URL
  score 0.8 and text score 0.5 the combined score is 0.71, the classification phishing
  and the confidence 71.
\<close>

theorem classify_combination:
  "phishing_score (combine_scores us ts fs) = fadd (fmul us (rnd 0.7)) (fmul ts (rnd 0.3)) \<and>
   classification (combine_scores us ts fs) =
     (if fadd (fmul us (rnd 0.7)) (fmul ts (rnd 0.3)) \<ge> rnd 0.7 then ''phishing''
      else if fadd (fmul us (rnd 0.7)) (fmul ts (rnd 0.3)) \<ge> rnd 0.4 then ''suspicious''
      else ''legitimate'') \<and>
   ml_confidence (combine_scores us ts fs) =
     (if fadd (fmul us (rnd 0.7)) (fmul ts (rnd 0.3)) \<ge> rnd 0.7
        then min 95 (fmul (fadd (fmul us (rnd 0.7)) (fmul ts (rnd 0.3))) 100)
      else if fadd (fmul us (rnd 0.7)) (fmul ts (rnd 0.3)) \<ge> rnd 0.4
        then min 85 (fmul (fadd (fmul us (rnd 0.7)) (fmul ts (rnd 0.3))) 100)
      else min 90 (fmul (fsub 1 (fadd (fmul us (rnd 0.7)) (fmul ts (rnd 0.3)))) 100)) \<and>
   (is_trained c \<and> predict_proba c (extract_url_features urlparse u a) = Inr us \<longrightarrow>
      classify c urlparse u a =
        combine_scores us (analyze_text_content (extract_text_features a))
          (extract_url_features urlparse u a)) \<and>
   phishing_score (combine_scores (rnd 0.8) (rnd 0.5) fs) = rnd 0.71 \<and>
   classification (combine_scores (rnd 0.8) (rnd 0.5) fs) = ''phishing'' \<and>
   ml_confidence (combine_scores (rnd 0.8) (rnd 0.5) fs) = 71"
proof (intro conjI)
  show "phishing_score (combine_scores (rnd 0.8) (rnd 0.5) fs) = rnd 0.71"
    by (simp add: combine_scores_def float_eval)
  show "classification (combine_scores (rnd 0.8) (rnd 0.5) fs) = ''phishing''"
    by (simp add: combine_scores_def float_eval)
  show "ml_confidence (combine_scores (rnd 0.8) (rnd 0.5) fs) = 71"
    by (simp add: combine_scores_def float_eval)
qed (simp_all add: combine_scores_def classify_def Let_def)

theorem classify_combination_witness:
  "is_trained trained_classifier \<and>
   predict_proba trained_classifier
     (extract_url_features example_urlparse ''http://192.168.0.5/login'' risky_analysis) =
     Inr (rnd 0.8) \<and>
   analyze_text_content (extract_text_features risky_analysis) = rnd 0.5 \<and>
   phishing_score (classify trained_classifier example_urlparse ''http://192.168.0.5/login''
                     risky_analysis) = rnd 0.71 \<and>
   classification (classify trained_classifier example_urlparse ''http://192.168.0.5/login''
                     risky_analysis) = ''phishing'' \<and>
   ml_confidence (classify trained_classifier example_urlparse ''http://192.168.0.5/login''
                     risky_analysis) = 71"
proof -
  have t: "is_trained trained_classifier"
    and p: "predict_proba trained_classifier
              (extract_url_features example_urlparse ''http://192.168.0.5/login'' risky_analysis) =
            Inr (rnd 0.8)"
    by (simp_all add: trained_classifier_def)
  have ts: "analyze_text_content (extract_text_features risky_analysis) = rnd 0.5"
    by (simp add: ex_text ex_text_score rnd_eval)
  note inst = classify_combination
      [of "rnd 0.8" "rnd 0.5"
          "extract_url_features example_urlparse ''http://192.168.0.5/login'' risky_analysis"
          trained_classifier example_urlparse "''http://192.168.0.5/login''" risky_analysis]
  have c: "classify trained_classifier example_urlparse ''http://192.168.0.5/login''
             risky_analysis =
           combine_scores (rnd 0.8) (rnd 0.5)
             (extract_url_features example_urlparse ''http://192.168.0.5/login'' risky_analysis)"
    using inst [THEN conjunct2, THEN conjunct2, THEN conjunct2, THEN conjunct1] t p
    unfolding ts by blast
  show ?thesis
    unfolding c
    using t p ts inst [THEN conjunct2, THEN conjunct2, THEN conjunct2, THEN conjunct2]
    by blast
qed


section \<open>Redirect tracing\<close>









lemma lower_Content_Type: "lower ''Content-Type'' = ''content-type''"
  by (simp add: lower_def py_lower_char_def char_of_def bit_0)











section \<open>Stage results\<close>








section \<open>The URL normalizer\<close>

text \<open>
  Claim C9, as stated, fails: \<open>_normalize_and_check_url\<close> has no handler, so a URL that
  \<open>urlparse\<close> rejects makes it raise. \<open>urlparse\<close> rejects a host with an unmatched
  bracket.
\<close>

theorem normalize_raises_counterexample:
  "normalize_and_check_url example_urlparse example_extract example_inet_aton example_idna
     ''http://['' = Inl (ValueError ''Invalid IPv6 URL'')"
  by (simp add: normalize_and_check_url_def with_scheme_def strip_def py_isspace_def
        startswith_simps example_urlparse_def)

text \<open>
  Claim C9, amended. The normalizer trims the input and prepends \<open>https://\<close> unless the
  trimmed input starts with \<open>http://\<close> or \<open>https://\<close>. When parsing and the domain
  extraction return, and \<open>inet_aton\<close> returns or raises a socket error, it returns the
  URL and its features record. A parse error is not caught: the normalizer raises it.
\<close>

theorem normalize_and_check_url_result:
  "with_scheme url0 =
     (if startswith (strip url0) ''http://'' \<or> startswith (strip url0) ''https://''
      then strip url0 else ''https://'' @ strip url0) \<and>
   (urlparse (with_scheme url0) = Inr parsed \<and> extract (netloc parsed) = Inr extracted \<and>
    (inet_aton (netloc parsed) = Inr () \<or> (\<exists>m. inet_aton (netloc parsed) = Inl (OSError m))) \<longrightarrow>
      normalize_and_check_url urlparse extract inet_aton idna_decode url0 =
        Inr (with_scheme url0,
             \<lparr> original_url = with_scheme url0,
               domain = ex_domain extracted,
               subdomain = ex_subdomain extracted,
               suffix = ex_suffix extracted,
               is_ip = (inet_aton (netloc parsed) = Inr ()),
               has_punycode = has_punycode_of idna_decode (netloc parsed),
               url_length = length (with_scheme url0),
               path_length = length (path parsed),
               query_length = length (query parsed) \<rparr>)) \<and>
   (urlparse (with_scheme url0) = Inl e \<longrightarrow>
      normalize_and_check_url urlparse extract inet_aton idna_decode url0 = Inl e)"
  by (auto simp: normalize_and_check_url_def with_scheme_def Let_def is_ip_address_def)

theorem normalize_and_check_url_result_witness:
  "with_scheme ''  192.168.0.5/login '' = ''https://192.168.0.5/login'' \<and>
   normalize_and_check_url example_urlparse example_extract example_inet_aton example_idna
     ''  192.168.0.5/login '' =
     Inr (''https://192.168.0.5/login'',
          \<lparr> original_url = ''https://192.168.0.5/login'', domain = ''192.168.0.5'',
            subdomain = [], suffix = [], is_ip = True, has_punycode = False,
            url_length = 25, path_length = 6, query_length = 0 \<rparr>)"
proof -
  have w: "with_scheme ''  192.168.0.5/login '' = ''https://192.168.0.5/login''"
    by (simp add: with_scheme_def strip_def py_isspace_def startswith_simps)
  have p: "example_urlparse ''https://192.168.0.5/login'' =
             Inr \<lparr> scheme = ''https'', netloc = ''192.168.0.5'', path = ''/login'', query = [] \<rparr>"
    by (simp add: example_urlparse_def)
  have x: "example_extract ''192.168.0.5'' =
             Inr \<lparr> ex_subdomain = [], ex_domain = ''192.168.0.5'', ex_suffix = [],
                   registered_domain = [] \<rparr>"
    by (simp add: example_extract_def)
  have i: "example_inet_aton ''192.168.0.5'' = Inr ()"
    by (simp add: example_inet_aton_def)
  have h: "\<not> has_punycode_of example_idna ''192.168.0.5''"
    by (simp add: has_punycode_of_def encode_ascii_def example_idna_def)
  show ?thesis
    using normalize_and_check_url_result
            [of "''  192.168.0.5/login ''" example_urlparse
                "\<lparr> scheme = ''https'', netloc = ''192.168.0.5'', path = ''/login'', query = [] \<rparr>"
                example_extract
                "\<lparr> ex_subdomain = [], ex_domain = ''192.168.0.5'', ex_suffix = [],
                   registered_domain = [] \<rparr>"
                example_inet_aton example_idna]
    by (simp add: w p x i h)
qed


section \<open>Determinism of the risk compiler\<close>

lemma ex_features:
  "extract_url_features example_urlparse ''http://['' example_analysis =
     [0, 0, 0, 0, 0, 0, 0, 0, 0, 0, 0, 0, 0, 0, 0]"
  by (simp add: extract_url_features_def example_urlparse_def numeral_eq_Suc)

lemma ex_no_content: "extract_text_features example_analysis = ''no content''"
  by (simp add: extract_text_features_def example_analysis_def no_steps_def strip_def)

lemma ex_no_content_score: "analyze_text_content ''no content'' = 0"
  unfolding analyze_text_content_def Let_def phishing_keywords_def
  by (simp add: startswith_simps lower_def py_lower_char_def fdiv_def rnd_def)

lemma ex_classify:
  "classify (fst (initialize_pretrained_model example_draw example_fit g)) example_urlparse
     ''http://['' example_analysis =
   combine_scores (if even g then rnd 0.1 else rnd 0.9) 0 [0, 0, 0, 0, 0, 0, 0, 0, 0, 0, 0, 0, 0, 0, 0]"
  by (simp add: initialize_pretrained_model_def example_draw_def example_fit_def classify_def
        ex_features ex_no_content ex_no_content_score)

lemma ex_compile:
  "fst (compile_risk_assessment example_draw example_fit example_urlparse g example_analysis) =
     assess (combine_scores (if even g then rnd 0.1 else rnd 0.9) 0
               [0, 0, 0, 0, 0, 0, 0, 0, 0, 0, 0, 0, 0, 0, 0]) example_analysis"
  "snd (compile_risk_assessment example_draw example_fit example_urlparse g example_analysis) =
     g + 1"
  using ex_classify [of g]
  by (simp_all add: compile_risk_assessment_def example_analysis_def split_beta Let_def
        initialize_pretrained_model_def example_draw_def example_fit_def)

lemma ex_risk:
  "risk_score (assess (combine_scores us 0 fs) example_analysis) =
     fadd 0 (fmul (fmul (fadd (fmul us (rnd 0.7)) (fmul 0 (rnd 0.3))) 100) (rnd 0.6))"
  by (simp add: assess_def tally_of_closed combine_scores_def Let_def example_analysis_def
        no_steps_def url_is_ip_def url_has_punycode_def url_length_of_def redirect_count_of_def
        login_form_of_def suspicious_keywords_of_def phishing_indicators_of_def
        map_filter_simps)

lemma ex_risk_differ: "rnd 4.199999999999999 \<noteq> rnd 37.8"
  by (simp add: rnd_eval)

text \<open>
  Claim C2, as stated, fails: the compiler fits a new classifier at each call, on data
  drawn from the process-wide generator, so two calls on the same analysis record meet
  two generator states. With a fit whose predictor depends on the data drawn, the second
  call gives another risk score than the first.
\<close>

theorem compile_not_deterministic_counterexample:
  "risk_score (fst (compile_risk_assessment example_draw example_fit example_urlparse 0
                      example_analysis)) = rnd 4.199999999999999 \<and>
   risk_score (fst (compile_risk_assessment example_draw example_fit example_urlparse
          (snd (compile_risk_assessment example_draw example_fit example_urlparse 0
                  example_analysis))
          example_analysis)) = rnd 37.8 \<and>
   fst (compile_risk_assessment example_draw example_fit example_urlparse
          (snd (compile_risk_assessment example_draw example_fit example_urlparse 0
                  example_analysis))
          example_analysis) \<noteq>
   fst (compile_risk_assessment example_draw example_fit example_urlparse 0 example_analysis)"
proof -
  have a: "risk_score (fst (compile_risk_assessment example_draw example_fit example_urlparse 0
                      example_analysis)) = rnd 4.199999999999999"
    by (simp add: ex_compile ex_risk float_eval)
  have b: "risk_score (fst (compile_risk_assessment example_draw example_fit example_urlparse
          (snd (compile_risk_assessment example_draw example_fit example_urlparse 0
                  example_analysis))
          example_analysis)) = rnd 37.8"
    by (simp add: ex_compile ex_risk float_eval)
  from a b ex_risk_differ show ?thesis by auto
qed

text \<open>
  Claim C2, amended. The assessment is a function of the analysis record and of the
  classifier's answer: two calls on the same analysis record whose classifiers answer
  alike return the same assessment.
\<close>

theorem compile_depends_on_classifier_output:
  "fst (compile_risk_assessment draw fit urlparse g analysis) =
     assess (classify (fst (initialize_pretrained_model draw fit g)) urlparse
               (ar_url analysis) analysis) analysis \<and>
   (classify (fst (initialize_pretrained_model draw fit g1)) urlparse (ar_url analysis) analysis =
    classify (fst (initialize_pretrained_model draw fit g2)) urlparse (ar_url analysis) analysis
    \<longrightarrow> fst (compile_risk_assessment draw fit urlparse g1 analysis) =
        fst (compile_risk_assessment draw fit urlparse g2 analysis))"
  by (simp add: compile_risk_assessment_def split_beta Let_def)

theorem compile_depends_on_classifier_output_witness:
  "fst (compile_risk_assessment example_draw example_fit example_urlparse 0 example_analysis) =
   fst (compile_risk_assessment example_draw example_fit example_urlparse 2 example_analysis)"
proof -
  have u: "ar_url example_analysis = ''http://[''"
    by (simp add: example_analysis_def)
  have same:
    "classify (fst (initialize_pretrained_model example_draw example_fit 0)) example_urlparse
       (ar_url example_analysis) example_analysis =
     classify (fst (initialize_pretrained_model example_draw example_fit 2)) example_urlparse
       (ar_url example_analysis) example_analysis"
    unfolding u ex_classify by simp
  show ?thesis
    using compile_depends_on_classifier_output
            [of example_draw example_fit example_urlparse 0 example_analysis 0 2] same
    by blast
qed

end
